theory Spec2Isabelle
  imports Complex_Main
begin

section \<open>Enumerations (windows\_enums.py)\<close>

text \<open>
  \<open>MouseFlags\<close> and \<open>KeyFlags\<close> are integer enumerations, \<open>MouseDirections\<close> is an
  enumeration of pairs. Each member has a name and a value.
\<close>

datatype MouseFlags = MOVE | LEFT_CLICK | LEFT_RELEASE | RIGHT_CLICK | RIGHT_RELEASE

fun MouseFlags_value :: "MouseFlags \<Rightarrow> nat" where
  "MouseFlags_value MOVE = 1"
| "MouseFlags_value LEFT_CLICK = 2"
| "MouseFlags_value LEFT_RELEASE = 4"
| "MouseFlags_value RIGHT_CLICK = 8"
| "MouseFlags_value RIGHT_RELEASE = 16"

fun MouseFlags_name :: "MouseFlags \<Rightarrow> string" where
  "MouseFlags_name MOVE = ''MOVE''"
| "MouseFlags_name LEFT_CLICK = ''LEFT_CLICK''"
| "MouseFlags_name LEFT_RELEASE = ''LEFT_RELEASE''"
| "MouseFlags_name RIGHT_CLICK = ''RIGHT_CLICK''"
| "MouseFlags_name RIGHT_RELEASE = ''RIGHT_RELEASE''"

datatype KeyFlags = PRESS | RELEASE

fun KeyFlags_value :: "KeyFlags \<Rightarrow> nat" where
  "KeyFlags_value PRESS = 8"
| "KeyFlags_value RELEASE = 10"

datatype MouseDirections = LEFT | RIGHT | UP | DOWN | STAY

fun MouseDirections_value :: "MouseDirections \<Rightarrow> int \<times> int" where
  "MouseDirections_value LEFT = (-1, 0)"
| "MouseDirections_value RIGHT = (1, 0)"
| "MouseDirections_value UP = (0, -1)"
| "MouseDirections_value DOWN = (0, 1)"
| "MouseDirections_value STAY = (0, 0)"

fun MouseDirections_name :: "MouseDirections \<Rightarrow> string" where
  "MouseDirections_name LEFT = ''LEFT''"
| "MouseDirections_name RIGHT = ''RIGHT''"
| "MouseDirections_name UP = ''UP''"
| "MouseDirections_name DOWN = ''DOWN''"
| "MouseDirections_name STAY = ''STAY''"

text \<open>
  A member of the integer enumeration \<open>DICodes\<close> is kept as its name and its scan code;
  the translation engine reads nothing else of it.
\<close>

type_synonym DICodes = "string \<times> nat"

section \<open>Strings\<close>

text \<open>
  \<open>startswith s p\<close> is Python's \<open>s.startswith(p)\<close>, \<open>py_in sub s\<close> is \<open>sub in s\<close> on
  strings, and \<open>lower\<close> is \<open>str.lower\<close> on the ASCII letters.
\<close>

fun startswith :: "string \<Rightarrow> string \<Rightarrow> bool" where
  "startswith s [] = True"
| "startswith [] (p # ps) = False"
| "startswith (c # cs) (p # ps) = (c = p \<and> startswith cs ps)"

fun py_in :: "string \<Rightarrow> string \<Rightarrow> bool" where
  "py_in sub [] = (sub = [])"
| "py_in sub (c # cs) = (startswith (c # cs) sub \<or> py_in sub cs)"

definition lower_char :: "char \<Rightarrow> char" where
  "lower_char c =
     (case map_of (zip ''ABCDEFGHIJKLMNOPQRSTUVWXYZ'' ''abcdefghijklmnopqrstuvwxyz'') c of
        None \<Rightarrow> c
      | Some l \<Rightarrow> l)"

definition lower :: "string \<Rightarrow> string" where
  "lower s = map lower_char s"

section \<open>Numbers\<close>

text \<open>
  A number of the program is a Python integer or a float. A float is kept as the real
  number it stands for; the result of a float operation is the exact result rounded to
  the nearest double, ties to the even significand (\<open>round_double\<close>). \<open>exponent x\<close> is
  the integer \<open>e\<close> with \<open>2 ^ e \<le> \<bar>x\<bar> < 2 ^ (e + 1)\<close>, found by halving or doubling; below
  the normal range the spacing of the doubles stays that of exponent \<open>-1022\<close>. Infinities,
  the not-a-number values and the sign of zero are left out: a result beyond the largest
  double is outside the model.
\<close>

function halvings :: "real \<Rightarrow> int" where
  "halvings x = (if 2 \<le> x then halvings (x / 2) + 1 else 0)"
  by pat_completeness auto
termination
proof (relation "measure (\<lambda>x. nat \<lfloor>x\<rfloor>)")
  show "wf (measure (\<lambda>x::real. nat \<lfloor>x\<rfloor>))" by simp
next
  fix x :: real
  assume "2 \<le> x"
  then have "\<lfloor>x / 2\<rfloor> < \<lfloor>x\<rfloor>" "0 < \<lfloor>x\<rfloor>" by linarith+
  then show "(x / 2, x) \<in> measure (\<lambda>x. nat \<lfloor>x\<rfloor>)" by simp
qed

function doublings :: "real \<Rightarrow> int" where
  "doublings x = (if 0 < x \<and> x < 1 then doublings (2 * x) + 1 else 0)"
  by pat_completeness auto
termination
proof (relation "measure (\<lambda>x. nat \<lceil>1 / x\<rceil>)")
  show "wf (measure (\<lambda>x::real. nat \<lceil>1 / x\<rceil>))" by simp
next
  fix x :: real
  assume a: "0 < x \<and> x < 1"
  define c where "c = \<lceil>1 / x\<rceil>"
  from a have "1 < 1 / x" by simp
  then have c2: "2 \<le> c" unfolding c_def by linarith
  have "1 / x \<le> of_int c" unfolding c_def by (rule le_of_int_ceiling)
  with c2 have "1 / x / 2 \<le> of_int (c - 1)" by simp
  then have "\<lceil>1 / x / 2\<rceil> \<le> c - 1" by (rule ceiling_le)
  moreover have "1 / (2 * x) = 1 / x / 2" by simp
  ultimately have "\<lceil>1 / (2 * x)\<rceil> \<le> c - 1" by (simp only:)
  with c2 have "nat \<lceil>1 / (2 * x)\<rceil> < nat \<lceil>1 / x\<rceil>" unfolding c_def by linarith
  then show "(2 * x, x) \<in> measure (\<lambda>x. nat \<lceil>1 / x\<rceil>)"
    by (simp only: in_measure)
qed

declare halvings.simps [simp del] doublings.simps [simp del]

definition exponent :: "real \<Rightarrow> int" where
  "exponent x = (if 1 \<le> \<bar>x\<bar> then halvings \<bar>x\<bar> else - doublings \<bar>x\<bar>)"

definition round_half_even :: "real \<Rightarrow> int" where
  "round_half_even q =
     (let f = \<lfloor>q\<rfloor>; d = q - of_int f
      in if d < 1 / 2 then f else if 1 / 2 < d then f + 1 else if even f then f else f + 1)"

definition round_double :: "real \<Rightarrow> real" where
  "round_double x =
     (if x = 0 then 0
      else (let e = max (exponent x) (- 1022); u = 2 powi (e - 52)
            in of_int (round_half_even (x / u)) * u))"

datatype number = PyInt int | PyFloat real

text \<open>The real number a number stands for, and the conversion \<open>float(x)\<close>.\<close>

fun number_value :: "number \<Rightarrow> real" where
  "number_value (PyInt a) = of_int a"
| "number_value (PyFloat x) = x"

fun to_float :: "number \<Rightarrow> real" where
  "to_float (PyInt a) = round_double (of_int a)"
| "to_float (PyFloat x) = x"

text \<open>
  \<open>+\<close> and \<open>*\<close>: exact on two integers; otherwise both operands are converted to float and
  the result is rounded.
\<close>

fun py_add :: "number \<Rightarrow> number \<Rightarrow> number" where
  "py_add (PyInt a) (PyInt b) = PyInt (a + b)"
| "py_add x y = PyFloat (round_double (to_float x + to_float y))"

fun py_mul :: "number \<Rightarrow> number \<Rightarrow> number" where
  "py_mul (PyInt a) (PyInt b) = PyInt (a * b)"
| "py_mul x y = PyFloat (round_double (to_float x * to_float y))"

section \<open>Device lookup (midi\_io.py)\<close>

text \<open>
  The transport library is outside the sources. Its two calls are parameters of the model:
  \<open>get_input_names\<close> is the result of enumerating the input ports and \<open>open_input\<close> opens a
  port by name; either may raise one of the two exceptions that \<open>find_device\<close> catches.
  A port is identified by the name it was opened with. \<open>find_device\<close> either returns the
  port or prints a message and leaves the process with an exit status.
\<close>

datatype midi_error = SystemError | OSError

type_synonym port = string

record exit =
  message :: string
  status :: int

definition not_identified :: "string \<Rightarrow> exit" where
  "not_identified identifier =
     \<lparr>message = CHR 0x0A # ''Error: \"'' @ identifier @ ''\" does not identify an active or valid MIDI device.'',
      status = 1\<rparr>"

definition in_use :: "string \<Rightarrow> exit" where
  "in_use identifier =
     \<lparr>message = CHR 0x0A # ''Error: Device identified by \"'' @ identifier @ ''\" appears to be in use by another process.'',
      status = 1\<rparr>"

definition handler :: "string \<Rightarrow> midi_error \<Rightarrow> exit" where
  "handler identifier e = (case e of SystemError \<Rightarrow> not_identified identifier | OSError \<Rightarrow> in_use identifier)"

fun find_device_loop :: "(string \<Rightarrow> midi_error + port) \<Rightarrow> string \<Rightarrow> string list \<Rightarrow> exit + port" where
  "find_device_loop open_input identifier [] = Inl (not_identified identifier)"
| "find_device_loop open_input identifier (name # names) =
     (if py_in (lower identifier) (lower name)
      then (case open_input name of
              Inl e \<Rightarrow> Inl (handler identifier e)
            | Inr p \<Rightarrow> Inr p)
      else find_device_loop open_input identifier names)"

definition find_device ::
  "(midi_error + string list) \<Rightarrow> (string \<Rightarrow> midi_error + port) \<Rightarrow> string \<Rightarrow> exit + port" where
  "find_device get_input_names open_input identifier =
     (case get_input_names of
        Inl e \<Rightarrow> Inl (handler identifier e)
      | Inr names \<Rightarrow> find_device_loop open_input identifier names)"

section \<open>The translation engine (midiator.py)\<close>

subsection \<open>State\<close>

text \<open>
  A message of the transport, as far as \<open>triage_message\<close> and the three translators read
  it: its type name, its channel and its note. Not every message has a channel: reading
  the attribute \<open>channel\<close> of a message without one raises \<open>AttributeError\<close>. The note is
  read only after the type name has been found to contain \<open>note_\<close>.
\<close>

record message =
  msg_type :: string
  msg_channel :: "int option"
  msg_note :: int

text \<open>
  The three sinks of windows\_io.py hand their arguments to the operating system; a call is
  recorded with its arguments.
\<close>

datatype sink_call =
    send_key_event DICodes KeyFlags
  | send_mouse_movement_event int int
  | send_mouse_button_event MouseFlags

text \<open>
  What \<open>log\<close> prints: a text, or the line announcing a received note with the note number
  and the name of its \<open>Notes\<close> member.
\<close>

datatype printed = Text string | Received int string

text \<open>
  The fields of a \<open>MIDIator\<close> object, followed by the two effects of the program on its
  environment: the lines printed so far and the sink calls made so far. The sensitivity
  and the two components of the accumulator are numbers, integers or floats, as the
  constructor takes any number.
\<close>

record MIDIator =
  verbose :: bool
  key_binds :: "int \<rightharpoonup> DICodes"
  mouse_movement_binds :: "int \<rightharpoonup> MouseDirections"
  mouse_button_binds :: "int \<rightharpoonup> MouseFlags \<times> MouseFlags"
  midi_port :: port
  midi_channel :: int
  mouse_sensitivity :: number
  mouse_refresh :: real
  mouse_vector :: "number \<times> number"
  stdout :: "printed list"
  sent :: "sink_call list"

datatype error = ValueError | KeyError | AttributeError

text \<open>
  The enumeration \<open>Notes\<close> of midi\_enums.py is not among the sources. It is a parameter:
  the map from a note number to the name of its member. \<open>Notes(n)\<close> raises \<open>ValueError\<close>
  where the enumeration has no member of value \<open>n\<close>.
\<close>

type_synonym Notes = "int \<rightharpoonup> string"

definition log_print :: "MIDIator \<Rightarrow> printed \<Rightarrow> MIDIator" where
  "log_print self line = (if verbose self then self\<lparr>stdout := stdout self @ [line]\<rparr> else self)"

definition send :: "MIDIator \<Rightarrow> sink_call \<Rightarrow> MIDIator" where
  "send self call = self\<lparr>sent := sent self @ [call]\<rparr>"

subsection \<open>Construction\<close>

definition init ::
  "(midi_error + string list) \<Rightarrow> (string \<Rightarrow> midi_error + port) \<Rightarrow> string \<Rightarrow>
   (int \<rightharpoonup> DICodes) \<Rightarrow> (int \<rightharpoonup> MouseDirections) \<Rightarrow> (int \<rightharpoonup> MouseFlags \<times> MouseFlags) \<Rightarrow>
   int \<Rightarrow> number \<Rightarrow> real \<Rightarrow> bool \<Rightarrow> exit + MIDIator" where
  "init get_input_names open_input midi_identifier kb mmb mbb channel sensitivity refresh verb =
     (case find_device get_input_names open_input midi_identifier of
        Inl e \<Rightarrow> Inl e
      | Inr p \<Rightarrow>
          Inr \<lparr>verbose = verb, key_binds = kb, mouse_movement_binds = mmb,
               mouse_button_binds = mbb, midi_port = p, midi_channel = channel,
               mouse_sensitivity = sensitivity, mouse_refresh = refresh,
               mouse_vector = (PyInt 0, PyInt 0),
               stdout = (if verb
                         then [Text ''{+} Initializing MIDIator...'',
                               Text (''    > Connecting to MIDI controller by identifier \"''
                                     @ midi_identifier @ ''\"... ''),
                               Text ''Done.'',
                               Text ''    > Initialization complete. '']
                         else []),
               sent = []\<rparr>)"

subsection \<open>The translators\<close>

definition translate_keystroke :: "MIDIator \<Rightarrow> message \<Rightarrow> error + MIDIator" where
  "translate_keystroke self msg =
     (case key_binds self (msg_note msg) of
        None \<Rightarrow> Inl KeyError
      | Some direct_input_key \<Rightarrow>
          (let self1 = (if msg_type msg = ''note_on''
                        then log_print self (Text (''Key '' @ fst direct_input_key))
                        else self);
               flag = (if msg_type msg = ''note_on'' then PRESS else RELEASE)
           in Inr (send self1 (send_key_event direct_input_key flag))))"

definition translate_mouse_move :: "MIDIator \<Rightarrow> message \<Rightarrow> error + MIDIator" where
  "translate_mouse_move self msg =
     (case mouse_movement_binds self (msg_note msg) of
        None \<Rightarrow> Inl KeyError
      | Some direction \<Rightarrow>
          (let self1 = (if msg_type msg = ''note_on''
                        then log_print self (Text (''Mouse '' @ MouseDirections_name direction))
                        else self);
               (x, y) = MouseDirections_value direction;
               polarity = (if msg_type msg = ''note_on'' then 1 else - 1);
               self2 = self1\<lparr>mouse_vector :=
                         (py_add (fst (mouse_vector self1))
                            (py_mul (py_mul (PyInt polarity) (PyInt x)) (mouse_sensitivity self1)),
                          snd (mouse_vector self1))\<rparr>
           in Inr (self2\<lparr>mouse_vector :=
                         (fst (mouse_vector self2),
                          py_add (snd (mouse_vector self2))
                            (py_mul (py_mul (PyInt polarity) (PyInt y)) (mouse_sensitivity self2)))\<rparr>)))"

definition translate_mouse_button :: "MIDIator \<Rightarrow> message \<Rightarrow> error + MIDIator" where
  "translate_mouse_button self msg =
     (case mouse_button_binds self (msg_note msg) of
        None \<Rightarrow> Inl KeyError
      | Some (click_flag, release_flag) \<Rightarrow>
          (let self1 = (if msg_type msg = ''note_on''
                        then log_print self (Text (''Mouse '' @ MouseFlags_name click_flag))
                        else self);
               flag = (if msg_type msg = ''note_on'' then click_flag else release_flag)
           in Inr (send self1 (send_mouse_button_event flag))))"

subsection \<open>The dispatcher\<close>

definition triage_message :: "Notes \<Rightarrow> MIDIator \<Rightarrow> message \<Rightarrow> error + MIDIator" where
  "triage_message notes self msg =
     (case msg_channel msg of
        None \<Rightarrow> Inl AttributeError
      | Some channel \<Rightarrow>
          if channel = midi_channel self \<and> py_in ''note_'' (msg_type msg)
          then (case (if msg_type msg = ''note_on''
                      then (case notes (msg_note msg) of
                              None \<Rightarrow> Inl ValueError
                            | Some name \<Rightarrow> Inr (log_print self (Received (msg_note msg) name)))
                      else Inr self) of
                  Inl e \<Rightarrow> Inl e
                | Inr self1 \<Rightarrow>
                    if key_binds self1 (msg_note msg) \<noteq> None
                    then translate_keystroke self1 msg
                    else if mouse_movement_binds self1 (msg_note msg) \<noteq> None
                    then translate_mouse_move self1 msg
                    else if mouse_button_binds self1 (msg_note msg) \<noteq> None
                    then translate_mouse_button self1 msg
                    else if msg_type msg = ''note_on''
                    then Inr (log_print self1 (Text ''Key not bound.''))
                    else Inr self1)
          else Inr self)"

text \<open>The loop of \<open>start\<close> over the messages of the port; an exception ends it.\<close>

fun handle_messages :: "Notes \<Rightarrow> MIDIator \<Rightarrow> message list \<Rightarrow> error + MIDIator" where
  "handle_messages notes self [] = Inr self"
| "handle_messages notes self (msg # msgs) =
     (case triage_message notes self msg of
        Inl e \<Rightarrow> Inl e
      | Inr self1 \<Rightarrow> handle_messages notes self1 msgs)"

subsection \<open>The mouse pump\<close>

text \<open>
  \<open>math.sin\<close> takes radians. The comparisons are those of the values. The product with
  \<open>sin_45\<close> is taken in the reals, and \<open>py_int\<close> is \<open>int\<close>: truncation toward zero.
\<close>

definition sin_45 :: real where
  "sin_45 = sin 45"

definition py_int :: "real \<Rightarrow> int" where
  "py_int r = (if 0 \<le> r then \<lfloor>r\<rfloor> else \<lceil>r\<rceil>)"

text \<open>One pass through the body of the loop of \<open>mouse_handler\<close>, the sleep left out.\<close>

definition mouse_handler_tick :: "MIDIator \<Rightarrow> MIDIator" where
  "mouse_handler_tick self =
     (let (x0, y0) = (number_value (fst (mouse_vector self)), number_value (snd (mouse_vector self)));
          (x, y) = (if \<bar>x0\<bar> = \<bar>y0\<bar> \<and> x0 \<noteq> 0 then (x0 * sin_45, y0 * sin_45) else (x0, y0))
      in send self (send_mouse_movement_event (py_int x) (py_int y)))"

text \<open>The loop never ends by itself; \<open>mouse_handler n\<close> is its first \<open>n\<close> passes.\<close>

fun mouse_handler :: "nat \<Rightarrow> MIDIator \<Rightarrow> MIDIator" where
  "mouse_handler 0 self = self"
| "mouse_handler (Suc n) self = mouse_handler n (mouse_handler_tick self)"

section \<open>A configuration for evaluation\<close>

text \<open>
  A configuration in the shape of the one in the main block of midiator.py, with its
  default channel, sensitivity and refresh interval. Note 70 is bound in all three tables
  and note 60 is bound to \<open>STAY\<close> and to a button.
\<close>

definition example :: MIDIator where
  "example =
     \<lparr>verbose = True,
      key_binds = [54 \<mapsto> (''W'', 17), 70 \<mapsto> (''SPACE'', 57)],
      mouse_movement_binds =
        [64 \<mapsto> LEFT, 65 \<mapsto> DOWN, 66 \<mapsto> UP, 67 \<mapsto> RIGHT, 60 \<mapsto> STAY, 70 \<mapsto> RIGHT],
      mouse_button_binds =
        [62 \<mapsto> (LEFT_CLICK, LEFT_RELEASE), 60 \<mapsto> (RIGHT_CLICK, RIGHT_RELEASE),
         70 \<mapsto> (LEFT_CLICK, LEFT_RELEASE)],
      midi_port = ''Casio USB MIDI'', midi_channel = 0, mouse_sensitivity = PyInt 4,
      mouse_refresh = 5 / 1000, mouse_vector = (PyInt 0, PyInt 0), stdout = [], sent = []\<rparr>"

text \<open>
  A configuration with the float sensitivity \<open>0.1\<close>, that is the double nearest to one
  tenth, three notes bound to \<open>RIGHT\<close>, and \<open>verbose\<close> off.
\<close>

definition example_float :: MIDIator where
  "example_float =
     \<lparr>verbose = False,
      key_binds = Map.empty,
      mouse_movement_binds = [67 \<mapsto> RIGHT, 68 \<mapsto> RIGHT, 69 \<mapsto> RIGHT],
      mouse_button_binds = Map.empty,
      midi_port = ''Casio USB MIDI'', midi_channel = 0,
      mouse_sensitivity = PyFloat (3602879701896397 / 36028797018963968),
      mouse_refresh = 5 / 1000, mouse_vector = (PyInt 0, PyInt 0), stdout = [], sent = []\<rparr>"

section \<open>Specification functions\<close>

text \<open>
  What a message adds to an integer accumulator when it is dispatched at the integer
  sensitivity \<open>s\<close>: the direction of its note times the sensitivity, with the sign of the
  message type, if the note reaches the movement table; nothing otherwise.
\<close>

definition displacement :: "int \<Rightarrow> MIDIator \<Rightarrow> message \<Rightarrow> int \<times> int" where
  "displacement s self msg =
     (if msg_channel msg = Some (midi_channel self) \<and> py_in ''note_'' (msg_type msg)
         \<and> key_binds self (msg_note msg) = None
      then (case mouse_movement_binds self (msg_note msg) of
              None \<Rightarrow> (0, 0)
            | Some direction \<Rightarrow>
                ((if msg_type msg = ''note_on'' then 1 else - 1)
                   * fst (MouseDirections_value direction) * s,
                 (if msg_type msg = ''note_on'' then 1 else - 1)
                   * snd (MouseDirections_value direction) * s))
      else (0, 0))"

text \<open>A number is representable when the conversion to float keeps its value.\<close>

definition representable :: "number \<Rightarrow> bool" where
  "representable x = (round_double (number_value x) = number_value x)"

section \<open>The sine of 45 radians\<close>

text \<open>
  The fifth-order Taylor bounds of the sine give \<open>3.104 < pi < 3.15\<close> from
  \<open>sin (pi / 6) = 1 / 2\<close>, hence \<open>0.9 < 45 - 14 * pi < pi / 2\<close>, and the sine of 45
  radians lies strictly between \<open>3 / 4\<close> and \<open>1\<close>.
\<close>

lemma sin_taylor5:
  fixes x :: real
  assumes "0 \<le> x"
  shows "x - x^3 / 6 - x^5 / 120 \<le> sin x" and "sin x \<le> x - x^3 / 6 + x^5 / 120"
proof -
  have e: "{..<5::nat} = {0, 1, 2, 3, 4}" by auto
  have c: "sin_coeff 0 = 0" "sin_coeff (Suc 0) = 1" "sin_coeff 2 = 0" "sin_coeff 3 = - 1 / 6"
    "sin_coeff 4 = 0"
    by (simp_all add: sin_coeff_def fact_numeral)
  have s: "(\<Sum>m<5. sin_coeff m * x ^ m) = x - x^3 / 6"
    unfolding e by (simp add: c)
  have "\<bar>sin x - (\<Sum>m<5. sin_coeff m * x ^ m)\<bar> \<le> inverse (fact 5) * \<bar>x\<bar> ^ 5"
    by (rule Maclaurin_sin_bound)
  moreover have "inverse (fact 5) * \<bar>x\<bar> ^ 5 = x^5 / 120"
    using assms by (simp add: fact_numeral)
  ultimately have b: "\<bar>sin x - (x - x^3 / 6)\<bar> \<le> x^5 / 120"
    using s by simp
  from b show "x - x^3 / 6 - x^5 / 120 \<le> sin x" by linarith
  from b show "sin x \<le> x - x^3 / 6 + x^5 / 120" by linarith
qed

lemma pi_lower: "3104 / 1000 < pi"
proof -
  let ?a = "3104 / 6000 :: real"
  have "sin ?a \<le> ?a - ?a^3 / 6 + ?a^5 / 120" by (rule sin_taylor5) simp
  also have "\<dots> < 1 / 2" by (simp add: power_divide)
  finally have "sin ?a < sin (pi / 6)" by (simp add: sin_30)
  moreover have "- (pi / 2) \<le> ?a" "?a \<le> pi / 2" "- (pi / 2) \<le> pi / 6" "pi / 6 \<le> pi / 2"
    using pi_ge_two by simp_all
  ultimately have "?a < pi / 6" using sin_mono_less_eq by blast
  then show ?thesis by simp
qed

lemma pi_upper: "pi < 315 / 100"
proof -
  let ?b = "315 / 600 :: real"
  have "1 / 2 < ?b - ?b^3 / 6 - ?b^5 / 120" by (simp add: power_divide)
  also have "\<dots> \<le> sin ?b" by (rule sin_taylor5) simp
  finally have "sin (pi / 6) < sin ?b" by (simp add: sin_30)
  moreover have "- (pi / 2) \<le> ?b" "?b \<le> pi / 2" "- (pi / 2) \<le> pi / 6" "pi / 6 \<le> pi / 2"
    using pi_ge_two by simp_all
  ultimately have "pi / 6 < ?b" using sin_mono_less_eq by blast
  then show ?thesis by simp
qed

lemma sin_45_bounds: "3 / 4 < sin (45::real)" "sin (45::real) < 1"
proof -
  define t :: real where "t = 45 - 14 * pi"
  have t1: "9 / 10 < t" using pi_upper by (simp add: t_def)
  have t2: "t < pi / 2" using pi_lower by (simp add: t_def)
  have "sin (t + 2 * pi * of_int 7) = sin t"
    by (simp add: sin_add)
  moreover have "t + 2 * pi * of_int 7 = 45" by (simp add: t_def)
  ultimately have eq: "sin 45 = sin t" by simp
  let ?c = "9 / 10 :: real"
  have "3 / 4 < ?c - ?c^3 / 6 - ?c^5 / 120" by (simp add: power_divide)
  also have "\<dots> \<le> sin ?c" by (rule sin_taylor5) simp
  also have "sin ?c < sin t"
    using t1 t2 pi_ge_two by (intro sin_monotone_2pi) simp_all
  finally show "3 / 4 < sin (45::real)" using eq by simp
  have "sin t < sin (pi / 2)"
    using t1 t2 by (intro sin_monotone_2pi) simp_all
  then show "sin (45::real) < 1" using eq by simp
qed

section \<open>The mouse pump\<close>


lemma py_int_4_sin_45: "py_int (4 * sin_45) = 3"
proof -
  have "3 < 4 * sin (45::real)" "4 * sin (45::real) < 4"
    using sin_45_bounds by simp_all
  then have "\<lfloor>4 * sin (45::real)\<rfloor> = 3" by linarith
  then show ?thesis using sin_45_bounds by (simp add: py_int_def sin_45_def)
qed

text \<open>
  C1. The claim: on a tick with a diagonal accumulator both components are scaled by the
  sine of 45 degrees, about 0.7071, so that the accumulator (4, 4) gives the movement
  (2, 2). The pump scales by \<open>sin 45\<close>, the sine of 45 radians, which is larger than
  \<open>3 / 4\<close>: on the accumulator (4, 4) a tick calls the movement sink with (3, 3).
\<close>

theorem mouse_handler_tick_diagonal:
  "mouse_handler_tick (self\<lparr>mouse_vector := (PyInt 4, PyInt 4)\<rparr>)
     = send (self\<lparr>mouse_vector := (PyInt 4, PyInt 4)\<rparr>) (send_mouse_movement_event 3 3)"
  by (simp add: mouse_handler_tick_def py_int_4_sin_45)



lemma mouse_handler_tick_call:
  "mouse_vector a = mouse_vector b \<Longrightarrow>
   last (sent (mouse_handler_tick a)) = last (sent (mouse_handler_tick b))"
  by (simp add: mouse_handler_tick_def send_def Let_def split: prod.splits)

lemma mouse_handler_tick_append:
  "mouse_handler_tick self = self\<lparr>sent := sent self @ [last (sent (mouse_handler_tick self))]\<rparr>"
  by (simp add: mouse_handler_tick_def send_def Let_def split: prod.splits)

lemma mouse_handler_replicate:
  "mouse_handler n self
     = self\<lparr>sent := sent self @ replicate n (last (sent (mouse_handler_tick self)))\<rparr>"
proof (induction n arbitrary: self)
  case 0
  show ?case by simp
next
  case (Suc n)
  let ?c = "last (sent (mouse_handler_tick self))"
  let ?t = "mouse_handler_tick self"
  have t: "?t = self\<lparr>sent := sent self @ [?c]\<rparr>" by (rule mouse_handler_tick_append)
  have v: "mouse_vector ?t = mouse_vector self" by (subst t) simp
  have c: "last (sent (mouse_handler_tick ?t)) = ?c" by (rule mouse_handler_tick_call [OF v])
  have "mouse_handler (Suc n) self = ?t\<lparr>sent := sent ?t @ replicate n ?c\<rparr>"
    using Suc.IH [of ?t] c by simp
  also have "\<dots> = self\<lparr>sent := (sent self @ [?c]) @ replicate n ?c\<rparr>"
    by (subst (1 2) t) simp
  also have "(sent self @ [?c]) @ replicate n ?c = sent self @ replicate (Suc n) ?c"
    by simp
  finally show ?case .
qed

text \<open>
  C7. The pump never writes the accumulator. After any number of ticks the state is the
  one before them but for the sink calls: every field of the object, the accumulator
  among them, is as it was, and each tick has made the same call as the first, so nothing
  is carried from one tick to the next. The call of a tick depends on the state through
  the accumulator only.
\<close>

theorem mouse_handler_keeps_accumulator:
  "mouse_handler n self
     = self\<lparr>sent := sent self @ replicate n (last (sent (mouse_handler_tick self)))\<rparr>
   \<and> (mouse_vector other = mouse_vector self \<longrightarrow>
        last (sent (mouse_handler_tick other)) = last (sent (mouse_handler_tick self)))"
  using mouse_handler_replicate mouse_handler_tick_call by blast

theorem mouse_handler_keeps_accumulator_witness:
  "mouse_vector (example\<lparr>verbose := False, sent := [send_mouse_button_event LEFT_CLICK]\<rparr>)
     = mouse_vector example
   \<and> last (sent (mouse_handler_tick
                   (example\<lparr>verbose := False, sent := [send_mouse_button_event LEFT_CLICK]\<rparr>)))
       = last (sent (mouse_handler_tick example))
   \<and> mouse_vector (mouse_handler 3 example) = (PyInt 0, PyInt 0)"
  using mouse_handler_keeps_accumulator
          [of 3 example "example\<lparr>verbose := False, sent := [send_mouse_button_event LEFT_CLICK]\<rparr>"]
  by (simp add: example_def)

section \<open>Strings\<close>

lemma startswith_iff: "startswith s p \<longleftrightarrow> (\<exists>post. s = p @ post)"
  by (induction s p rule: startswith.induct) auto

lemma py_in_iff: "py_in sub s \<longleftrightarrow> (\<exists>pre post. s = pre @ sub @ post)"
proof (induction s)
  case Nil
  show ?case by auto
next
  case (Cons c cs)
  have "(\<exists>pre post. c # cs = pre @ sub @ post)
      \<longleftrightarrow> (\<exists>post. c # cs = sub @ post) \<or> (\<exists>pre post. cs = pre @ sub @ post)"
  proof
    assume "\<exists>pre post. c # cs = pre @ sub @ post"
    then obtain pre post where e: "c # cs = pre @ sub @ post" by blast
    show "(\<exists>post. c # cs = sub @ post) \<or> (\<exists>pre post. cs = pre @ sub @ post)"
    proof (cases pre)
      case Nil
      with e show ?thesis by auto
    next
      case (Cons a pre')
      with e have "cs = pre' @ sub @ post" by simp
      then show ?thesis by blast
    qed
  next
    assume "(\<exists>post. c # cs = sub @ post) \<or> (\<exists>pre post. cs = pre @ sub @ post)"
    then show "\<exists>pre post. c # cs = pre @ sub @ post"
    proof
      assume "\<exists>post. c # cs = sub @ post"
      then obtain post where "c # cs = [] @ sub @ post" by auto
      then show ?thesis by blast
    next
      assume "\<exists>pre post. cs = pre @ sub @ post"
      then obtain pre post where "c # cs = (c # pre) @ sub @ post" by auto
      then show ?thesis by blast
    qed
  qed
  then show ?case using Cons.IH by (simp add: startswith_iff)
qed

section \<open>The dispatcher\<close>

text \<open>The effect of each translator on a note that its table binds.\<close>

lemma translate_keystroke_effect:
  assumes "key_binds self (msg_note msg) = Some k"
  shows "translate_keystroke self msg
     = Inr (self\<lparr>stdout := stdout self @ (if msg_type msg = ''note_on'' \<and> verbose self
                                              then [Text (''Key '' @ fst k)] else []),
                 sent := sent self @ [send_key_event k (if msg_type msg = ''note_on'' then PRESS else RELEASE)]\<rparr>)"
  using assms by (simp add: translate_keystroke_def log_print_def send_def)

lemma translate_mouse_move_effect:
  assumes "mouse_movement_binds self (msg_note msg) = Some d"
  shows "translate_mouse_move self msg
     = Inr (self\<lparr>mouse_vector :=
                   (py_add (fst (mouse_vector self))
                      (py_mul (PyInt ((if msg_type msg = ''note_on'' then 1 else - 1)
                                      * fst (MouseDirections_value d)))
                              (mouse_sensitivity self)),
                    py_add (snd (mouse_vector self))
                      (py_mul (PyInt ((if msg_type msg = ''note_on'' then 1 else - 1)
                                      * snd (MouseDirections_value d)))
                              (mouse_sensitivity self))),
                 stdout := stdout self @ (if msg_type msg = ''note_on'' \<and> verbose self
                                              then [Text (''Mouse '' @ MouseDirections_name d)] else [])\<rparr>)"
  using assms by (simp add: translate_mouse_move_def log_print_def split: prod.splits)

lemma translate_mouse_button_effect:
  assumes "mouse_button_binds self (msg_note msg) = Some (c, r)"
  shows "translate_mouse_button self msg
     = Inr (self\<lparr>stdout := stdout self @ (if msg_type msg = ''note_on'' \<and> verbose self
                                              then [Text (''Mouse '' @ MouseFlags_name c)] else []),
                 sent := sent self @ [send_mouse_button_event (if msg_type msg = ''note_on'' then c else r)]\<rparr>)"
  using assms by (simp add: translate_mouse_button_def log_print_def send_def)


text \<open>
  The state after the dispatch of a message that passes the filter: the accumulator, the
  printed lines and the sink calls, by the first table that binds the note.
\<close>

lemma triage_message_passed:
  assumes "msg_channel msg = Some (midi_channel self)"
    and "py_in ''note_'' (msg_type msg)"
    and "msg_type msg = ''note_on'' \<longrightarrow> notes (msg_note msg) = Some name"
  shows "triage_message notes self msg = Inr
     (self\<lparr>mouse_vector :=
              (case key_binds self (msg_note msg) of
                 Some k \<Rightarrow> mouse_vector self
               | None \<Rightarrow>
                   (case mouse_movement_binds self (msg_note msg) of
                      Some d \<Rightarrow>
                        (py_add (fst (mouse_vector self))
                           (py_mul (PyInt ((if msg_type msg = ''note_on'' then 1 else - 1)
                                           * fst (MouseDirections_value d)))
                                   (mouse_sensitivity self)),
                         py_add (snd (mouse_vector self))
                           (py_mul (PyInt ((if msg_type msg = ''note_on'' then 1 else - 1)
                                           * snd (MouseDirections_value d)))
                                   (mouse_sensitivity self)))
                    | None \<Rightarrow> mouse_vector self)),
            stdout := stdout self @
              (if msg_type msg = ''note_on'' \<and> verbose self
               then [Received (msg_note msg) name,
                     Text (case key_binds self (msg_note msg) of
                             Some k \<Rightarrow> ''Key '' @ fst k
                           | None \<Rightarrow>
                               (case mouse_movement_binds self (msg_note msg) of
                                  Some d \<Rightarrow> ''Mouse '' @ MouseDirections_name d
                                | None \<Rightarrow>
                                    (case mouse_button_binds self (msg_note msg) of
                                       Some (c, r) \<Rightarrow> ''Mouse '' @ MouseFlags_name c
                                     | None \<Rightarrow> ''Key not bound.'')))]
               else []),
            sent := sent self @
              (case key_binds self (msg_note msg) of
                 Some k \<Rightarrow> [send_key_event k (if msg_type msg = ''note_on'' then PRESS else RELEASE)]
               | None \<Rightarrow>
                   (case mouse_movement_binds self (msg_note msg) of
                      Some d \<Rightarrow> []
                    | None \<Rightarrow>
                        (case mouse_button_binds self (msg_note msg) of
                           Some (c, r) \<Rightarrow>
                             [send_mouse_button_event (if msg_type msg = ''note_on'' then c else r)]
                         | None \<Rightarrow> [])))\<rparr>)"
proof (cases "msg_type msg = ''note_on''")
  case True
  let ?s1 = "log_print self (Received (msg_note msg) name)"
  have f: "key_binds ?s1 = key_binds self" "mouse_movement_binds ?s1 = mouse_movement_binds self"
    "mouse_button_binds ?s1 = mouse_button_binds self"
    by (simp_all add: log_print_def)
  show ?thesis
  proof (cases "key_binds self (msg_note msg)")
    case (Some k)
    then show ?thesis using assms True translate_keystroke_effect [of ?s1 msg k]
      by (simp add: triage_message_def f) (simp add: log_print_def)
  next
    case kn: None
    show ?thesis
    proof (cases "mouse_movement_binds self (msg_note msg)")
      case (Some d)
      then show ?thesis using assms True kn translate_mouse_move_effect [of ?s1 msg d]
        by (simp add: triage_message_def f) (simp add: log_print_def)
    next
      case mn: None
      show ?thesis
      proof (cases "mouse_button_binds self (msg_note msg)")
        case (Some p)
        obtain c r where p: "p = (c, r)" by (cases p)
        show ?thesis using assms True kn mn Some p translate_mouse_button_effect [of ?s1 msg c r]
          by (simp add: triage_message_def f) (simp add: log_print_def)
      next
        case None
        then show ?thesis using assms True kn mn
          by (simp add: triage_message_def f) (simp add: log_print_def)
      qed
    qed
  qed
next
  case False
  show ?thesis
  proof (cases "key_binds self (msg_note msg)")
    case (Some k)
    then show ?thesis using assms False translate_keystroke_effect [of self msg k]
      by (simp add: triage_message_def)
  next
    case kn: None
    show ?thesis
    proof (cases "mouse_movement_binds self (msg_note msg)")
      case (Some d)
      then show ?thesis using assms False kn translate_mouse_move_effect [of self msg d]
        by (simp add: triage_message_def)
    next
      case mn: None
      show ?thesis
      proof (cases "mouse_button_binds self (msg_note msg)")
        case (Some p)
        obtain c r where p: "p = (c, r)" by (cases p)
        show ?thesis using assms False kn mn Some p translate_mouse_button_effect [of self msg c r]
          by (simp add: triage_message_def)
      next
        case None
        then show ?thesis using assms False kn mn
          by (simp add: triage_message_def)
      qed
    qed
  qed
qed

lemma triage_message_filtered:
  assumes "msg_channel msg = Some c"
    and "c \<noteq> midi_channel self \<or> \<not> py_in ''note_'' (msg_type msg)"
  shows "triage_message notes self msg = Inr self"
proof -
  from assms(2) have "\<not> (c = midi_channel self \<and> py_in ''note_'' (msg_type msg))"
    by blast
  then show ?thesis
    by (simp only: triage_message_def assms(1) option.case if_False)
qed

text \<open>
  C4. The claim: a message whose channel is not the configured one, or whose type is
  neither \<open>note_on\<close> nor \<open>note_off\<close>, is discarded with no effect. The dispatcher reads
  the channel before it looks at the type, so a message that has no channel, such as the
  clock message of the transport, is not discarded: the dispatch raises \<open>AttributeError\<close>,
  and the loop over the messages ends with it, whatever follows.
\<close>

theorem triage_message_no_channel:
  "triage_message notes self \<lparr>msg_type = ''clock'', msg_channel = None, msg_note = n\<rparr>
     = Inl AttributeError
   \<and> handle_messages notes self
         (\<lparr>msg_type = ''clock'', msg_channel = None, msg_note = n\<rparr> # msgs)
     = Inl AttributeError"
  by (simp add: triage_message_def)

text \<open>
  C3. A message that passes the filter is resolved against the key table, then the
  movement table, then the button table, and only the translator of the first table that
  binds the note runs: a key binding gives one key event and leaves the accumulator, also
  when the note is in the other tables; otherwise a movement binding updates the
  accumulator and calls no sink, also when the note has a button binding; otherwise a
  button binding gives one button event. At most one sink call is made.
\<close>

theorem triage_message_first_match:
  assumes "msg_channel msg = Some (midi_channel self)"
    and "py_in ''note_'' (msg_type msg)"
    and "msg_type msg = ''note_on'' \<longrightarrow> notes (msg_note msg) = Some name"
  shows "\<exists>self'. triage_message notes self msg = Inr self'
     \<and> sent self' = sent self @
           (case key_binds self (msg_note msg) of
              Some k \<Rightarrow> [send_key_event k (if msg_type msg = ''note_on'' then PRESS else RELEASE)]
            | None \<Rightarrow>
                (case mouse_movement_binds self (msg_note msg) of
                   Some d \<Rightarrow> []
                 | None \<Rightarrow>
                     (case mouse_button_binds self (msg_note msg) of
                        Some (c, r) \<Rightarrow>
                          [send_mouse_button_event (if msg_type msg = ''note_on'' then c else r)]
                      | None \<Rightarrow> [])))
     \<and> mouse_vector self' =
           (case key_binds self (msg_note msg) of
              Some k \<Rightarrow> mouse_vector self
            | None \<Rightarrow>
                (case mouse_movement_binds self (msg_note msg) of
                   Some d \<Rightarrow>
                     (py_add (fst (mouse_vector self))
                        (py_mul (PyInt ((if msg_type msg = ''note_on'' then 1 else - 1)
                                        * fst (MouseDirections_value d)))
                                (mouse_sensitivity self)),
                      py_add (snd (mouse_vector self))
                        (py_mul (PyInt ((if msg_type msg = ''note_on'' then 1 else - 1)
                                        * snd (MouseDirections_value d)))
                                (mouse_sensitivity self)))
                 | None \<Rightarrow> mouse_vector self))
     \<and> stdout self' = stdout self @
           (if msg_type msg = ''note_on'' \<and> verbose self
            then [Received (msg_note msg) name,
                  Text (case key_binds self (msg_note msg) of
                          Some k \<Rightarrow> ''Key '' @ fst k
                        | None \<Rightarrow>
                            (case mouse_movement_binds self (msg_note msg) of
                               Some d \<Rightarrow> ''Mouse '' @ MouseDirections_name d
                             | None \<Rightarrow>
                                 (case mouse_button_binds self (msg_note msg) of
                                    Some (c, r) \<Rightarrow> ''Mouse '' @ MouseFlags_name c
                                  | None \<Rightarrow> ''Key not bound.'')))]
            else [])
     \<and> length (sent self') \<le> length (sent self) + 1"
proof -
  note r = triage_message_passed [of msg self "notes" name, OF assms]
  show ?thesis
    by (subst r, rule exI, rule conjI, rule refl) (simp split: option.splits prod.splits)
qed

theorem triage_message_first_match_witness:
  "msg_channel \<lparr>msg_type = ''note_on'', msg_channel = Some 0, msg_note = 70\<rparr> = Some (midi_channel example)
   \<and> py_in ''note_'' (msg_type \<lparr>msg_type = ''note_on'', msg_channel = Some 0, msg_note = 70\<rparr>)
   \<and> [70 \<mapsto> ''AS4''] (msg_note \<lparr>msg_type = ''note_on'', msg_channel = Some 0, msg_note = 70\<rparr>) = Some ''AS4''
   \<and> (\<exists>self'. triage_message [70 \<mapsto> ''AS4''] example
                   \<lparr>msg_type = ''note_on'', msg_channel = Some 0, msg_note = 70\<rparr> = Inr self'
        \<and> sent self' = [send_key_event (''SPACE'', 57) PRESS]
        \<and> mouse_vector self' = (PyInt 0, PyInt 0)
        \<and> stdout self' = [Received 70 ''AS4'', Text ''Key SPACE'']
        \<and> length (sent self') \<le> 1)"
  using triage_message_first_match
          [of "\<lparr>msg_type = ''note_on'', msg_channel = Some 0, msg_note = 70\<rparr>" example
              "[70 \<mapsto> ''AS4'']" "''AS4''"]
  by (simp add: example_def)


text \<open>
  C5. For a note in none of the three tables the dispatch calls no sink and leaves the
  accumulator, for \<open>note_on\<close> and for \<open>note_off\<close>; the line \<open>Key not bound.\<close> is printed
  for a \<open>note_on\<close> on the configured channel (with \<open>verbose\<close> set) and never for a
  \<open>note_off\<close>.
\<close>

theorem triage_message_unbound:
  assumes "key_binds self (msg_note msg) = None"
    and "mouse_movement_binds self (msg_note msg) = None"
    and "mouse_button_binds self (msg_note msg) = None"
    and "msg_type msg = ''note_on'' \<or> msg_type msg = ''note_off''"
    and "msg_type msg = ''note_on'' \<longrightarrow> notes (msg_note msg) = Some name"
    and "msg_channel msg = Some c"
  shows "\<exists>self'. triage_message notes self msg = Inr self'
     \<and> sent self' = sent self
     \<and> mouse_vector self' = mouse_vector self
     \<and> stdout self' = stdout self @
           (if msg_type msg = ''note_on'' \<and> c = midi_channel self \<and> verbose self
            then [Received (msg_note msg) name, Text ''Key not bound.'']
            else [])"
proof (cases "c = midi_channel self")
  case True
  with assms(6) have ch: "msg_channel msg = Some (midi_channel self)" by simp
  from assms(4) have p: "py_in ''note_'' (msg_type msg)" by auto
  show ?thesis
    by (subst triage_message_passed [of msg self "notes" name, OF ch p assms(5)])
       (simp add: assms(1-3) True)
next
  case False
  then have "triage_message notes self msg = Inr self"
    by (intro triage_message_filtered [OF assms(6)]) simp
  with False show ?thesis by simp
qed

theorem triage_message_unbound_witness:
  "key_binds example (msg_note \<lparr>msg_type = ''note_on'', msg_channel = Some 0, msg_note = 99\<rparr>) = None
   \<and> mouse_movement_binds example (msg_note \<lparr>msg_type = ''note_on'', msg_channel = Some 0, msg_note = 99\<rparr>) = None
   \<and> mouse_button_binds example (msg_note \<lparr>msg_type = ''note_on'', msg_channel = Some 0, msg_note = 99\<rparr>) = None
   \<and> [99 \<mapsto> ''DS7''] (msg_note \<lparr>msg_type = ''note_on'', msg_channel = Some 0, msg_note = 99\<rparr>) = Some ''DS7''
   \<and> msg_channel \<lparr>msg_type = ''note_on'', msg_channel = Some 0, msg_note = 99\<rparr> = Some 0
   \<and> (\<exists>self'. triage_message [99 \<mapsto> ''DS7''] example
                   \<lparr>msg_type = ''note_on'', msg_channel = Some 0, msg_note = 99\<rparr> = Inr self'
        \<and> sent self' = [] \<and> mouse_vector self' = (PyInt 0, PyInt 0)
        \<and> stdout self' = [Received 99 ''DS7'', Text ''Key not bound.''])
   \<and> (\<exists>self'. triage_message [99 \<mapsto> ''DS7''] example
                   \<lparr>msg_type = ''note_off'', msg_channel = Some 0, msg_note = 99\<rparr> = Inr self'
        \<and> sent self' = [] \<and> mouse_vector self' = (PyInt 0, PyInt 0) \<and> stdout self' = [])"
  using triage_message_unbound
          [of example "\<lparr>msg_type = ''note_on'', msg_channel = Some 0, msg_note = 99\<rparr>"
              "[99 \<mapsto> ''DS7'']" "''DS7''" 0]
        triage_message_unbound
          [of example "\<lparr>msg_type = ''note_off'', msg_channel = Some 0, msg_note = 99\<rparr>"
              "[99 \<mapsto> ''DS7'']" "''DS7''" 0]
  by (simp add: example_def)


lemma round_double_0: "round_double 0 = 0"
  by (simp add: round_double_def)

lemma py_mul_0:
  "number_value (py_mul (PyInt 0) s) = 0"
  "py_mul (PyInt 0) (PyInt k) = PyInt 0"
  by (cases s) (simp_all add: round_double_0)

lemma py_add_zero:
  assumes "representable x"
  shows "number_value (py_add x (py_mul (PyInt 0) s)) = number_value x"
proof (cases s)
  case (PyInt k)
  with assms show ?thesis
    by (cases x) (simp_all add: representable_def round_double_0)
next
  case (PyFloat f)
  with assms show ?thesis
    by (cases x) (simp_all add: representable_def round_double_0)
qed

text \<open>
  C10. \<open>STAY\<close> is a fifth direction, of value (0, 0). A note bound to it in the movement
  table (and not in the key table) is handled by the movement translator: no sink is
  called, whatever the button table holds for the note, and \<open>note_on\<close> and \<open>note_off\<close> add
  zero times the sensitivity, a zero, to each component of the accumulator. An integer
  accumulator at an integer sensitivity is exactly as it was; in general every
  representable component keeps its value.
\<close>

theorem triage_message_stay:
  assumes "mouse_movement_binds self (msg_note msg) = Some STAY"
    and "key_binds self (msg_note msg) = None"
    and "msg_channel msg = Some (midi_channel self)"
    and "msg_type msg = ''note_on'' \<or> msg_type msg = ''note_off''"
    and "msg_type msg = ''note_on'' \<longrightarrow> notes (msg_note msg) = Some name"
  shows "MouseDirections_value STAY = (0, 0)
     \<and> (\<exists>self'. triage_message notes self msg = Inr self'
          \<and> sent self' = sent self
          \<and> stdout self' = stdout self @
                (if msg_type msg = ''note_on'' \<and> verbose self
                 then [Received (msg_note msg) name, Text ''Mouse STAY'']
                 else [])
          \<and> mouse_vector self' =
                (py_add (fst (mouse_vector self)) (py_mul (PyInt 0) (mouse_sensitivity self)),
                 py_add (snd (mouse_vector self)) (py_mul (PyInt 0) (mouse_sensitivity self)))
          \<and> number_value (py_mul (PyInt 0) (mouse_sensitivity self)) = 0
          \<and> (mouse_sensitivity self = PyInt s \<and> mouse_vector self = (PyInt x, PyInt y) \<longrightarrow>
                mouse_vector self' = mouse_vector self)
          \<and> (representable (fst (mouse_vector self)) \<longrightarrow>
                number_value (fst (mouse_vector self')) = number_value (fst (mouse_vector self)))
          \<and> (representable (snd (mouse_vector self)) \<longrightarrow>
                number_value (snd (mouse_vector self')) = number_value (snd (mouse_vector self))))"
proof -
  from assms(4) have p: "py_in ''note_'' (msg_type msg)" by auto
  show ?thesis
    by (subst triage_message_passed [of msg self "notes" name, OF assms(3) p assms(5)])
       (auto simp: assms(1,2) py_mul_0 py_add_zero)
qed

theorem triage_message_stay_witness:
  "mouse_movement_binds example (msg_note \<lparr>msg_type = ''note_on'', msg_channel = Some 0, msg_note = 60\<rparr>) = Some STAY
   \<and> key_binds example (msg_note \<lparr>msg_type = ''note_on'', msg_channel = Some 0, msg_note = 60\<rparr>) = None
   \<and> mouse_button_binds example 60 = Some (RIGHT_CLICK, RIGHT_RELEASE)
   \<and> msg_channel \<lparr>msg_type = ''note_on'', msg_channel = Some 0, msg_note = 60\<rparr> = Some (midi_channel example)
   \<and> [60 \<mapsto> ''C4''] (msg_note \<lparr>msg_type = ''note_on'', msg_channel = Some 0, msg_note = 60\<rparr>) = Some ''C4''
   \<and> mouse_sensitivity example = PyInt 4
   \<and> mouse_vector example = (PyInt 0, PyInt 0)
   \<and> representable (PyInt 0)
   \<and> (\<exists>self'. triage_message [60 \<mapsto> ''C4''] example
                   \<lparr>msg_type = ''note_on'', msg_channel = Some 0, msg_note = 60\<rparr> = Inr self'
        \<and> mouse_vector self' = (PyInt 0, PyInt 0) \<and> sent self' = []
        \<and> stdout self' = [Received 60 ''C4'', Text ''Mouse STAY''])"
  using triage_message_stay
          [of example "\<lparr>msg_type = ''note_on'', msg_channel = Some 0, msg_note = 60\<rparr>"
              "[60 \<mapsto> ''C4'']" "''C4''" 4 0 0]
  by (simp add: example_def representable_def round_double_0) blast

section \<open>The accumulator\<close>

text \<open>
  At an integer sensitivity the dispatch of a message adds the displacement of the message
  to an integer accumulator and changes nothing else but the printed lines and the sink
  calls; a run of messages adds the sum of their displacements.
\<close>

lemma displacement_fields [simp]:
  "displacement s (self\<lparr>mouse_vector := v, stdout := so, sent := se\<rparr>) msg = displacement s self msg"
  by (simp add: displacement_def cong: option.case_cong if_cong)

lemma triage_message_total:
  assumes "mouse_sensitivity self = PyInt s"
    and "mouse_vector self = (PyInt x, PyInt y)"
    and "msg_channel msg \<noteq> None"
    and "msg_type msg = ''note_on'' \<longrightarrow> notes (msg_note msg) \<noteq> None"
  shows "\<exists>so se. triage_message notes self msg
           = Inr (self\<lparr>mouse_vector := (PyInt (x + fst (displacement s self msg)),
                                        PyInt (y + snd (displacement s self msg))),
                       stdout := so, sent := se\<rparr>)"
proof (cases "msg_channel msg = Some (midi_channel self) \<and> py_in ''note_'' (msg_type msg)")
  case False
  from assms(3) obtain c where c: "msg_channel msg = Some c" by blast
  with False have "triage_message notes self msg = Inr self"
    by (intro triage_message_filtered [OF c]) auto
  moreover have "displacement s self msg = (0, 0)"
    using False by (subst displacement_def) (rule if_not_P, blast)
  moreover have "self = self\<lparr>mouse_vector := (PyInt x, PyInt y), stdout := stdout self, sent := sent self\<rparr>"
    using assms(2) by (simp flip: assms(2))
  ultimately show ?thesis by (metis add.right_neutral fst_conv snd_conv)
next
  case True
  obtain name where n: "msg_type msg = ''note_on'' \<longrightarrow> notes (msg_note msg) = Some name"
    using assms(4) by (cases "notes (msg_note msg)") auto
  from True have ch: "msg_channel msg = Some (midi_channel self)" and ty: "py_in ''note_'' (msg_type msg)"
    by simp_all
  note r = triage_message_passed [of msg self "notes" name, OF ch ty n]
  have e: "(case key_binds self (msg_note msg) of
            Some k \<Rightarrow> mouse_vector self
          | None \<Rightarrow>
              (case mouse_movement_binds self (msg_note msg) of
                 Some d \<Rightarrow>
                   (py_add (fst (mouse_vector self))
                      (py_mul (PyInt ((if msg_type msg = ''note_on'' then 1 else - 1)
                                      * fst (MouseDirections_value d)))
                              (mouse_sensitivity self)),
                    py_add (snd (mouse_vector self))
                      (py_mul (PyInt ((if msg_type msg = ''note_on'' then 1 else - 1)
                                      * snd (MouseDirections_value d)))
                              (mouse_sensitivity self)))
               | None \<Rightarrow> mouse_vector self))
        = (PyInt (x + fst (displacement s self msg)), PyInt (y + snd (displacement s self msg)))"
    using True by (simp add: displacement_def assms(1,2) split: option.splits)
  show ?thesis by (subst r, subst e, blast)
qed

lemma handle_messages_total:
  assumes "mouse_sensitivity self = PyInt s"
    and "mouse_vector self = (PyInt x, PyInt y)"
    and "\<forall>m \<in> set msgs. msg_channel m \<noteq> None
           \<and> (msg_type m = ''note_on'' \<longrightarrow> notes (msg_note m) \<noteq> None)"
  shows "\<exists>so se. handle_messages notes self msgs
           = Inr (self\<lparr>mouse_vector :=
                         (PyInt (x + (\<Sum>m\<leftarrow>msgs. fst (displacement s self m))),
                          PyInt (y + (\<Sum>m\<leftarrow>msgs. snd (displacement s self m)))),
                       stdout := so, sent := se\<rparr>)"
  using assms
proof (induction msgs arbitrary: self x y)
  case Nil
  show ?case
    by (rule exI [of _ "stdout self"], rule exI [of _ "sent self"]) (simp flip: Nil.prems(2))
next
  case (Cons m msgs)
  from Cons.prems(3) have 1: "msg_channel m \<noteq> None"
    and 2: "msg_type m = ''note_on'' \<longrightarrow> notes (msg_note m) \<noteq> None"
    and 3: "\<forall>m \<in> set msgs. msg_channel m \<noteq> None
           \<and> (msg_type m = ''note_on'' \<longrightarrow> notes (msg_note m) \<noteq> None)"
    by simp_all
  from triage_message_total [of self s x y m "notes", OF Cons.prems(1,2) 1 2] obtain so se where
    t: "triage_message notes self m
          = Inr (self\<lparr>mouse_vector := (PyInt (x + fst (displacement s self m)),
                                       PyInt (y + snd (displacement s self m))),
                      stdout := so, sent := se\<rparr>)" by blast
  let ?s1 = "self\<lparr>mouse_vector := (PyInt (x + fst (displacement s self m)),
                                      PyInt (y + snd (displacement s self m))),
                      stdout := so, sent := se\<rparr>"
  have a: "mouse_sensitivity ?s1 = PyInt s" using Cons.prems(1) by simp
  have b: "mouse_vector ?s1 = (PyInt (x + fst (displacement s self m)),
                               PyInt (y + snd (displacement s self m)))" by simp
  from Cons.IH [OF a b 3] obtain so' se' where
    h: "handle_messages notes ?s1 msgs
          = Inr (?s1\<lparr>mouse_vector :=
                         (PyInt (x + fst (displacement s self m)
                                   + (\<Sum>m\<leftarrow>msgs. fst (displacement s ?s1 m))),
                          PyInt (y + snd (displacement s self m)
                                   + (\<Sum>m\<leftarrow>msgs. snd (displacement s ?s1 m)))),
                       stdout := so', sent := se'\<rparr>)" by blast
  show ?case
    by (rule exI [of _ so'], rule exI [of _ se']) (simp add: t h add.assoc)
qed

lemma displacement_on_off:
  "fst (displacement s self \<lparr>msg_type = ''note_on'', msg_channel = c, msg_note = n\<rparr>)
     + fst (displacement s self \<lparr>msg_type = ''note_off'', msg_channel = c, msg_note = n\<rparr>) = 0"
  "snd (displacement s self \<lparr>msg_type = ''note_on'', msg_channel = c, msg_note = n\<rparr>)
     + snd (displacement s self \<lparr>msg_type = ''note_off'', msg_channel = c, msg_note = n\<rparr>) = 0"
  by (simp_all add: displacement_def split: option.splits)

lemma displacement_dvd:
  "s dvd fst (displacement s self msg)"
  "s dvd snd (displacement s self msg)"
  by (simp_all add: displacement_def split: option.splits)

lemma dvd_sum_list_map:
  fixes d :: int
  shows "(\<And>x. d dvd f x) \<Longrightarrow> d dvd (\<Sum>x\<leftarrow>xs. f x)"
  by (induction xs) simp_all

lemma init_fields:
  assumes "init get_input_names open_input identifier kb mmb mbb channel sensitivity refresh verb = Inr self"
  shows "mouse_vector self = (PyInt 0, PyInt 0)" and "mouse_sensitivity self = sensitivity"
  using assms by (auto simp: init_def split: sum.splits)

text \<open>
  The evaluation of the rounding, and one dispatch at the float sensitivity \<open>0.1\<close>.
\<close>

lemmas round_double_eval =
  round_double_def exponent_def halvings.simps doublings.simps round_half_even_def Let_def
  power_int_def power_divide

lemma round_double_tenth:
  "round_double 1 = 1"
  "round_double (- 1) = - 1"
  "round_double (3602879701896397 / 36028797018963968) = 3602879701896397 / 36028797018963968"
  "round_double (- (3602879701896397 / 36028797018963968)) = - (3602879701896397 / 36028797018963968)"
  by (simp_all add: round_double_eval)

lemma example_float_on:
  assumes "n = 67 \<or> n = 68 \<or> n = 69"
  shows "triage_message [67 \<mapsto> ''G4'', 68 \<mapsto> ''GS4'', 69 \<mapsto> ''A4'']
           (example_float\<lparr>mouse_vector := (a, b)\<rparr>)
           \<lparr>msg_type = ''note_on'', msg_channel = Some 0, msg_note = n\<rparr>
         = Inr (example_float\<lparr>mouse_vector :=
                  (py_add a (PyFloat (3602879701896397 / 36028797018963968)),
                   py_add b (PyFloat 0))\<rparr>)"
  using assms
  by (auto simp: triage_message_def translate_mouse_move_def log_print_def example_float_def
        round_double_tenth round_double_0)

lemma example_float_off:
  assumes "n = 67 \<or> n = 68 \<or> n = 69"
  shows "triage_message [67 \<mapsto> ''G4'', 68 \<mapsto> ''GS4'', 69 \<mapsto> ''A4'']
           (example_float\<lparr>mouse_vector := (a, b)\<rparr>)
           \<lparr>msg_type = ''note_off'', msg_channel = Some 0, msg_note = n\<rparr>
         = Inr (example_float\<lparr>mouse_vector :=
                  (py_add a (PyFloat (- (3602879701896397 / 36028797018963968))),
                   py_add b (PyFloat 0))\<rparr>)"
  using assms
  by (auto simp: triage_message_def translate_mouse_move_def log_print_def example_float_def
        round_double_tenth round_double_0)

lemma example_float_vector:
  "example_float = example_float\<lparr>mouse_vector := (PyInt 0, PyInt 0)\<rparr>"
  by (simp add: example_float_def)

text \<open>
  C2, as amended. At an integer sensitivity and with an integer accumulator, as the
  constructor leaves it, \<open>note_on\<close> followed by \<open>note_off\<close> of a note of the movement table
  adds nothing to the accumulator, whatever messages are dispatched between the two: the
  accumulator after the pair and the messages between is the one those messages give
  alone. With no message between, or with messages that together leave the accumulator,
  it is the value before the pair. Where the key table does not take the note, the
  \<open>note_on\<close> has added the direction times the sensitivity.
\<close>

theorem on_off_cancel:
  assumes "mouse_movement_binds self n = Some d"
    and "mouse_sensitivity self = PyInt s"
    and "mouse_vector self = (PyInt x, PyInt y)"
    and "notes n \<noteq> None"
    and "\<forall>m \<in> set msgs. msg_channel m \<noteq> None
           \<and> (msg_type m = ''note_on'' \<longrightarrow> notes (msg_note m) \<noteq> None)"
  shows "(\<exists>s1 s2. handle_messages notes self msgs = Inr s1
      \<and> handle_messages notes self
           (\<lparr>msg_type = ''note_on'', msg_channel = Some (midi_channel self), msg_note = n\<rparr>
              # msgs @ [\<lparr>msg_type = ''note_off'', msg_channel = Some (midi_channel self), msg_note = n\<rparr>])
          = Inr s2
      \<and> mouse_vector s2 = mouse_vector s1)
      \<and> (key_binds self n = None \<longrightarrow>
           (\<exists>s'. triage_message notes self
                   \<lparr>msg_type = ''note_on'', msg_channel = Some (midi_channel self), msg_note = n\<rparr> = Inr s'
              \<and> mouse_vector s' =
                  (PyInt (x + fst (MouseDirections_value d) * s),
                   PyInt (y + snd (MouseDirections_value d) * s))))"
proof -
  let ?on = "\<lparr>msg_type = ''note_on'', msg_channel = Some (midi_channel self), msg_note = n\<rparr>"
  let ?off = "\<lparr>msg_type = ''note_off'', msg_channel = Some (midi_channel self), msg_note = n\<rparr>"
  from handle_messages_total [of self s x y msgs "notes", OF assms(2,3,5)] obtain so1 se1 where
    1: "handle_messages notes self msgs
          = Inr (self\<lparr>mouse_vector :=
                        (PyInt (x + (\<Sum>m\<leftarrow>msgs. fst (displacement s self m))),
                         PyInt (y + (\<Sum>m\<leftarrow>msgs. snd (displacement s self m)))),
                      stdout := so1, sent := se1\<rparr>)" by blast
  have "\<forall>m \<in> set (?on # msgs @ [?off]). msg_channel m \<noteq> None
           \<and> (msg_type m = ''note_on'' \<longrightarrow> notes (msg_note m) \<noteq> None)"
    using assms(4,5) by simp
  from handle_messages_total [of self s x y "?on # msgs @ [?off]" "notes", OF assms(2,3) this]
  obtain so2 se2 where
    2: "handle_messages notes self (?on # msgs @ [?off])
          = Inr (self\<lparr>mouse_vector :=
                        (PyInt (x + (\<Sum>m\<leftarrow>?on # msgs @ [?off]. fst (displacement s self m))),
                         PyInt (y + (\<Sum>m\<leftarrow>?on # msgs @ [?off]. snd (displacement s self m)))),
                      stdout := so2, sent := se2\<rparr>)" by blast
  have a: "(\<Sum>m\<leftarrow>?on # msgs @ [?off]. fst (displacement s self m)) = (\<Sum>m\<leftarrow>msgs. fst (displacement s self m))"
    using displacement_on_off(1) [of s self "Some (midi_channel self)" n] by simp
  have b: "(\<Sum>m\<leftarrow>?on # msgs @ [?off]. snd (displacement s self m)) = (\<Sum>m\<leftarrow>msgs. snd (displacement s self m))"
    using displacement_on_off(2) [of s self "Some (midi_channel self)" n] by simp
  have 3: "\<exists>s'. triage_message notes self ?on = Inr s'
              \<and> mouse_vector s' =
                  (PyInt (x + fst (MouseDirections_value d) * s),
                   PyInt (y + snd (MouseDirections_value d) * s))"
    if k: "key_binds self n = None"
  proof -
    from assms(4) obtain name where "notes n = Some name" by blast
    then have "msg_type ?on = ''note_on'' \<longrightarrow> notes (msg_note ?on) = Some name" by simp
    from triage_message_passed [of ?on self "notes" name, OF _ _ this]
    show ?thesis by (simp add: k assms(1,2,3))
  qed
  have 4: "\<exists>s1 s2. handle_messages notes self msgs = Inr s1
      \<and> handle_messages notes self (?on # msgs @ [?off]) = Inr s2
      \<and> mouse_vector s2 = mouse_vector s1"
    by (subst 1, subst 2, subst a, subst b) simp
  show ?thesis
    by (rule conjI, rule 4, rule impI, erule 3)
qed

theorem on_off_cancel_witness:
  "mouse_movement_binds example 64 = Some LEFT
   \<and> mouse_sensitivity example = PyInt 4
   \<and> mouse_vector example = (PyInt 0, PyInt 0)
   \<and> key_binds example 64 = None
   \<and> (\<exists>s1 s2. handle_messages [64 \<mapsto> ''E4'', 67 \<mapsto> ''G4''] example
                 [\<lparr>msg_type = ''note_on'', msg_channel = Some 0, msg_note = 67\<rparr>] = Inr s1
        \<and> handle_messages [64 \<mapsto> ''E4'', 67 \<mapsto> ''G4''] example
             [\<lparr>msg_type = ''note_on'', msg_channel = Some 0, msg_note = 64\<rparr>,
              \<lparr>msg_type = ''note_on'', msg_channel = Some 0, msg_note = 67\<rparr>,
              \<lparr>msg_type = ''note_off'', msg_channel = Some 0, msg_note = 64\<rparr>] = Inr s2
        \<and> mouse_vector s2 = mouse_vector s1)
   \<and> (\<exists>s'. triage_message [64 \<mapsto> ''E4'', 67 \<mapsto> ''G4''] example
               \<lparr>msg_type = ''note_on'', msg_channel = Some 0, msg_note = 64\<rparr> = Inr s'
        \<and> mouse_vector s' = (PyInt (- 4), PyInt 0))"
proof -
  have b: "mouse_movement_binds example 64 = Some LEFT"
    by (simp add: example_def)
  have s: "mouse_sensitivity example = PyInt 4" and v: "mouse_vector example = (PyInt 0, PyInt 0)"
    by (simp_all add: example_def)
  have n: "[64 \<mapsto> ''E4'', 67 \<mapsto> ''G4''] (64::int) \<noteq> None"
    by simp
  have m: "\<forall>m \<in> set [\<lparr>msg_type = ''note_on'', msg_channel = Some 0, msg_note = 67\<rparr>].
         msg_channel m \<noteq> None
         \<and> (msg_type m = ''note_on'' \<longrightarrow> [64 \<mapsto> ''E4'', 67 \<mapsto> ''G4''] (msg_note m) \<noteq> None)"
    by simp
  from on_off_cancel [of example 64 LEFT 4 0 0 "[64 \<mapsto> ''E4'', 67 \<mapsto> ''G4'']"
                         "[\<lparr>msg_type = ''note_on'', msg_channel = Some 0, msg_note = 67\<rparr>]", OF b s v n m]
  show ?thesis by (simp add: example_def)
qed

text \<open>
  C2, as stated for every sensitivity, fails at the float sensitivity \<open>0.1\<close>. Two notes
  held bring the first component to \<open>0.2\<close>; \<open>note_on\<close> and then \<open>note_off\<close> of a third
  note give \<open>0.30000000000000004\<close> and then \<open>0.20000000000000004\<close>, which is not the value
  before the pair.
\<close>

theorem on_off_float_counterexample:
  "mouse_movement_binds example_float 69 = Some RIGHT
   \<and> handle_messages [67 \<mapsto> ''G4'', 68 \<mapsto> ''GS4'', 69 \<mapsto> ''A4''] example_float
        [\<lparr>msg_type = ''note_on'', msg_channel = Some 0, msg_note = 67\<rparr>,
         \<lparr>msg_type = ''note_on'', msg_channel = Some 0, msg_note = 68\<rparr>]
      = Inr (example_float\<lparr>mouse_vector :=
               (PyFloat (3602879701896397 / 18014398509481984), PyFloat 0)\<rparr>)
   \<and> handle_messages [67 \<mapsto> ''G4'', 68 \<mapsto> ''GS4'', 69 \<mapsto> ''A4'']
        (example_float\<lparr>mouse_vector :=
               (PyFloat (3602879701896397 / 18014398509481984), PyFloat 0)\<rparr>)
        [\<lparr>msg_type = ''note_on'', msg_channel = Some 0, msg_note = 69\<rparr>,
         \<lparr>msg_type = ''note_off'', msg_channel = Some 0, msg_note = 69\<rparr>]
      = Inr (example_float\<lparr>mouse_vector :=
               (PyFloat (7205759403792795 / 36028797018963968), PyFloat 0)\<rparr>)
   \<and> number_value (PyFloat (7205759403792795 / 36028797018963968))
       \<noteq> number_value (PyFloat (3602879701896397 / 18014398509481984))"
proof -
  have 1: "handle_messages [67 \<mapsto> ''G4'', 68 \<mapsto> ''GS4'', 69 \<mapsto> ''A4''] example_float
        [\<lparr>msg_type = ''note_on'', msg_channel = Some 0, msg_note = 67\<rparr>,
         \<lparr>msg_type = ''note_on'', msg_channel = Some 0, msg_note = 68\<rparr>]
      = Inr (example_float\<lparr>mouse_vector :=
               (PyFloat (3602879701896397 / 18014398509481984), PyFloat 0)\<rparr>)"
    by (subst example_float_vector) (simp add: example_float_on round_double_eval)
  have 2: "handle_messages [67 \<mapsto> ''G4'', 68 \<mapsto> ''GS4'', 69 \<mapsto> ''A4'']
        (example_float\<lparr>mouse_vector :=
               (PyFloat (3602879701896397 / 18014398509481984), PyFloat 0)\<rparr>)
        [\<lparr>msg_type = ''note_on'', msg_channel = Some 0, msg_note = 69\<rparr>,
         \<lparr>msg_type = ''note_off'', msg_channel = Some 0, msg_note = 69\<rparr>]
      = Inr (example_float\<lparr>mouse_vector :=
               (PyFloat (7205759403792795 / 36028797018963968), PyFloat 0)\<rparr>)"
    by (simp add: example_float_on example_float_off round_double_eval)
  have 3: "mouse_movement_binds example_float 69 = Some RIGHT"
    by (simp add: example_float_def)
  have 4: "number_value (PyFloat (7205759403792795 / 36028797018963968))
       \<noteq> number_value (PyFloat (3602879701896397 / 18014398509481984))"
    by simp
  from 3 1 2 4 show ?thesis by (intro conjI)
qed

text \<open>
  C9, as amended. At an integer sensitivity, from the accumulator (0, 0) that the
  constructor sets, every run of dispatched messages leaves both components integer
  multiples of the sensitivity.
\<close>

theorem accumulator_multiple_of_sensitivity:
  assumes "init get_input_names open_input identifier kb mmb mbb channel (PyInt s) refresh verb = Inr self"
    and "\<forall>m \<in> set msgs. msg_channel m \<noteq> None
           \<and> (msg_type m = ''note_on'' \<longrightarrow> notes (msg_note m) \<noteq> None)"
  shows "\<exists>self' kx ky. handle_messages notes self msgs = Inr self'
      \<and> mouse_vector self' = (PyInt (kx * s), PyInt (ky * s))"
proof -
  note f = init_fields [OF assms(1)]
  from handle_messages_total [of self s 0 0 msgs "notes", OF f(2) f(1) assms(2)] obtain so se where
    1: "handle_messages notes self msgs
          = Inr (self\<lparr>mouse_vector :=
                        (PyInt (0 + (\<Sum>m\<leftarrow>msgs. fst (displacement s self m))),
                         PyInt (0 + (\<Sum>m\<leftarrow>msgs. snd (displacement s self m)))),
                      stdout := so, sent := se\<rparr>)" by blast
  have "s dvd (\<Sum>m\<leftarrow>msgs. fst (displacement s self m))"
    by (intro dvd_sum_list_map displacement_dvd)
  then obtain kx where kx: "(\<Sum>m\<leftarrow>msgs. fst (displacement s self m)) = kx * s"
    by (auto simp: dvd_def mult.commute)
  have "s dvd (\<Sum>m\<leftarrow>msgs. snd (displacement s self m))"
    by (intro dvd_sum_list_map displacement_dvd)
  then obtain ky where ky: "(\<Sum>m\<leftarrow>msgs. snd (displacement s self m)) = ky * s"
    by (auto simp: dvd_def mult.commute)
  show ?thesis
    by (subst 1) (simp add: kx ky)
qed

theorem accumulator_multiple_of_sensitivity_witness:
  "init (Inr [''Casio USB MIDI'']) Inr ''Casio'' (key_binds example) (mouse_movement_binds example)
        (mouse_button_binds example) 0 (PyInt 4) (5 / 1000) False = Inr (example\<lparr>verbose := False\<rparr>)
   \<and> (\<exists>self' kx ky. handle_messages [65 \<mapsto> ''F4'', 67 \<mapsto> ''G4''] (example\<lparr>verbose := False\<rparr>)
                 [\<lparr>msg_type = ''note_on'', msg_channel = Some 0, msg_note = 67\<rparr>,
                  \<lparr>msg_type = ''note_on'', msg_channel = Some 0, msg_note = 65\<rparr>] = Inr self'
        \<and> mouse_vector self' = (PyInt (kx * 4), PyInt (ky * 4)))"
proof -
  have i: "init (Inr [''Casio USB MIDI'']) Inr ''Casio'' (key_binds example)
             (mouse_movement_binds example) (mouse_button_binds example) 0 (PyInt 4) (5 / 1000) False
           = Inr (example\<lparr>verbose := False\<rparr>)"
    by (simp add: init_def find_device_def lower_def lower_char_def example_def)
  have m: "\<forall>m \<in> set [\<lparr>msg_type = ''note_on'', msg_channel = Some 0, msg_note = 67\<rparr>,
                  \<lparr>msg_type = ''note_on'', msg_channel = Some 0, msg_note = 65\<rparr>].
         msg_channel m \<noteq> None
         \<and> (msg_type m = ''note_on'' \<longrightarrow> [65 \<mapsto> ''F4'', 67 \<mapsto> ''G4''] (msg_note m) \<noteq> None)"
    by simp
  from accumulator_multiple_of_sensitivity [OF i m] i show ?thesis by blast
qed

text \<open>
  C9, as stated for every sensitivity, fails at the float sensitivity \<open>0.1\<close>. Six
  \<open>note_on\<close> messages of notes bound to \<open>RIGHT\<close> bring the first component from 0 to the
  double \<open>0.6\<close>, whose quotient by the sensitivity is not an integer; the float product of
  6 and the sensitivity is another double.
\<close>

theorem float_multiple_counterexample:
  "init (Inr [''Casio USB MIDI'']) Inr ''Casio'' Map.empty
        [67 \<mapsto> RIGHT, 68 \<mapsto> RIGHT, 69 \<mapsto> RIGHT] Map.empty 0
        (PyFloat (3602879701896397 / 36028797018963968)) (5 / 1000) False
      = Inr example_float
   \<and> handle_messages [67 \<mapsto> ''G4'', 68 \<mapsto> ''GS4'', 69 \<mapsto> ''A4''] example_float
        [\<lparr>msg_type = ''note_on'', msg_channel = Some 0, msg_note = 67\<rparr>,
         \<lparr>msg_type = ''note_on'', msg_channel = Some 0, msg_note = 68\<rparr>,
         \<lparr>msg_type = ''note_on'', msg_channel = Some 0, msg_note = 69\<rparr>,
         \<lparr>msg_type = ''note_on'', msg_channel = Some 0, msg_note = 67\<rparr>,
         \<lparr>msg_type = ''note_on'', msg_channel = Some 0, msg_note = 68\<rparr>,
         \<lparr>msg_type = ''note_on'', msg_channel = Some 0, msg_note = 69\<rparr>]
      = Inr (example_float\<lparr>mouse_vector :=
               (PyFloat (5404319552844595 / 9007199254740992), PyFloat 0)\<rparr>)
   \<and> number_value (PyFloat (5404319552844595 / 9007199254740992))
         / number_value (mouse_sensitivity example_float) \<notin> \<int>
   \<and> py_mul (PyInt 6) (mouse_sensitivity example_float)
       \<noteq> PyFloat (5404319552844595 / 9007199254740992)"
proof -
  have 1: "init (Inr [''Casio USB MIDI'']) Inr ''Casio'' Map.empty
        [67 \<mapsto> RIGHT, 68 \<mapsto> RIGHT, 69 \<mapsto> RIGHT] Map.empty 0
        (PyFloat (3602879701896397 / 36028797018963968)) (5 / 1000) False
      = Inr example_float"
    by (simp add: init_def find_device_def lower_def lower_char_def example_float_def)
  have 2: "handle_messages [67 \<mapsto> ''G4'', 68 \<mapsto> ''GS4'', 69 \<mapsto> ''A4''] example_float
        [\<lparr>msg_type = ''note_on'', msg_channel = Some 0, msg_note = 67\<rparr>,
         \<lparr>msg_type = ''note_on'', msg_channel = Some 0, msg_note = 68\<rparr>,
         \<lparr>msg_type = ''note_on'', msg_channel = Some 0, msg_note = 69\<rparr>,
         \<lparr>msg_type = ''note_on'', msg_channel = Some 0, msg_note = 67\<rparr>,
         \<lparr>msg_type = ''note_on'', msg_channel = Some 0, msg_note = 68\<rparr>,
         \<lparr>msg_type = ''note_on'', msg_channel = Some 0, msg_note = 69\<rparr>]
      = Inr (example_float\<lparr>mouse_vector :=
               (PyFloat (5404319552844595 / 9007199254740992), PyFloat 0)\<rparr>)"
    by (subst example_float_vector) (simp add: example_float_on round_double_eval)
  have 3: "number_value (PyFloat (5404319552844595 / 9007199254740992))
         / number_value (mouse_sensitivity example_float) \<notin> \<int>"
    by (simp add: example_float_def frac_eq_0_iff [symmetric] frac_def)
  have 4: "py_mul (PyInt 6) (mouse_sensitivity example_float)
       \<noteq> PyFloat (5404319552844595 / 9007199254740992)"
    by (simp add: example_float_def round_double_eval)
  from 1 2 3 4 show ?thesis by (intro conjI)
qed

section \<open>Device lookup\<close>

lemma find_device_loop_find:
  "find_device_loop open_input identifier names =
     (case find (\<lambda>name. py_in (lower identifier) (lower name)) names of
        None \<Rightarrow> Inl (not_identified identifier)
      | Some name \<Rightarrow>
          (case open_input name of Inl e \<Rightarrow> Inl (handler identifier e) | Inr p \<Rightarrow> Inr p))"
  by (induction names) simp_all

text \<open>
  C8. \<open>find_device\<close> opens the first enumerated port whose name, in lower case, contains
  the identifier in lower case: \<open>Casio\<close> selects \<open>CASIO USB MIDI\<close> ahead of a later
  match. Where no name matches, the process exits with status 1, and the constructor
  ends there, before any message is dispatched.
\<close>

theorem find_device_first_match:
  "find_device (Inr names) open_input identifier =
     (case find (\<lambda>name. \<exists>pre post. lower name = pre @ lower identifier @ post) names of
        None \<Rightarrow> Inl (not_identified identifier)
      | Some name \<Rightarrow>
          (case open_input name of Inl e \<Rightarrow> Inl (handler identifier e) | Inr p \<Rightarrow> Inr p))
   \<and> status (not_identified identifier) = 1
   \<and> ((\<forall>name \<in> set names. \<not> (\<exists>pre post. lower name = pre @ lower identifier @ post)) \<longrightarrow>
        init (Inr names) open_input identifier kb mmb mbb channel sensitivity refresh verb
          = Inl (not_identified identifier))"
proof -
  have p: "(\<lambda>name. py_in (lower identifier) (lower name))
         = (\<lambda>name. \<exists>pre post. lower name = pre @ lower identifier @ post)"
    by (rule ext) (simp add: py_in_iff)
  have 1: "find_device (Inr names) open_input identifier =
     (case find (\<lambda>name. \<exists>pre post. lower name = pre @ lower identifier @ post) names of
        None \<Rightarrow> Inl (not_identified identifier)
      | Some name \<Rightarrow>
          (case open_input name of Inl e \<Rightarrow> Inl (handler identifier e) | Inr p \<Rightarrow> Inr p))"
    by (simp add: find_device_def find_device_loop_find p)
  have 2: "status (not_identified identifier) = 1"
    by (simp add: not_identified_def)
  have 3: "init (Inr names) open_input identifier kb mmb mbb channel sensitivity refresh verb
          = Inl (not_identified identifier)"
    if "\<forall>name \<in> set names. \<not> (\<exists>pre post. lower name = pre @ lower identifier @ post)"
  proof -
    from that have "find (\<lambda>name. \<exists>pre post. lower name = pre @ lower identifier @ post) names = None"
      by (simp add: find_None_iff)
    then show ?thesis by (simp add: init_def 1)
  qed
  from 1 2 3 show ?thesis by blast
qed

theorem find_device_first_match_witness:
  "find_device (Inr [''Midi Through Port-0'', ''CASIO USB MIDI'', ''Casio USB MIDI'']) Inr ''Casio''
     = Inr ''CASIO USB MIDI''
   \<and> init (Inr [''Midi Through Port-0'', ''Casio USB MIDI'']) Inr ''Korg''
        (key_binds example) (mouse_movement_binds example) (mouse_button_binds example)
        0 (PyInt 4) (5 / 1000) True
       = Inl \<lparr>message = CHR 0x0A # ''Error: \"Korg\" does not identify an active or valid MIDI device.'',
              status = 1\<rparr>"
proof -
  have n: "\<forall>name \<in> set [''Midi Through Port-0'', ''Casio USB MIDI''].
         \<not> (\<exists>pre post. lower name = pre @ lower ''Korg'' @ post)"
    by (simp only: py_in_iff [symmetric]) (simp add: lower_def lower_char_def)
  have f: "find (\<lambda>name. \<exists>pre post. lower name = pre @ lower ''Casio'' @ post)
             [''Midi Through Port-0'', ''CASIO USB MIDI'', ''Casio USB MIDI''] = Some ''CASIO USB MIDI''"
    by (simp only: py_in_iff [symmetric]) (simp add: lower_def lower_char_def)
  have 1: "find_device (Inr [''Midi Through Port-0'', ''CASIO USB MIDI'', ''Casio USB MIDI'']) Inr ''Casio''
     = Inr ''CASIO USB MIDI''"
    by (subst find_device_first_match [THEN conjunct1], subst f, simp)
  from find_device_first_match
         [of "[''Midi Through Port-0'', ''Casio USB MIDI'']" Inr "''Korg''"
             "key_binds example" "mouse_movement_binds example" "mouse_button_binds example"
             0 "PyInt 4" "5 / 1000" True] n
  have 2: "init (Inr [''Midi Through Port-0'', ''Casio USB MIDI'']) Inr ''Korg''
        (key_binds example) (mouse_movement_binds example) (mouse_button_binds example)
        0 (PyInt 4) (5 / 1000) True
       = Inl \<lparr>message = CHR 0x0A # ''Error: \"Korg\" does not identify an active or valid MIDI device.'',
              status = 1\<rparr>"
    by (simp add: not_identified_def)
  from 1 2 show ?thesis by blast
qed

end
